theory Spec2Isabelle
  imports Main
begin

section \<open>Sign in with Apple: schemas and settings\<close>

text \<open>
  The repository declares its data as classes of a validation library
  (\<^verbatim>\<open>src/eden/auth/schemas.py\<close>, \<^verbatim>\<open>src/eden/auth/settings.py\<close>): each class is a
  list of annotated fields, some with defaults, one with a field validator. The behaviour
  of such a class is what constructing it from input data does: every field is looked up,
  validated against its annotation, and either an object is built or the list of all
  field errors is raised. This theory writes that construction out, class by class, with
  a record for the object and a sum type for the outcome.
\<close>

subsection \<open>Input values\<close>

text \<open>
  Input data is JSON-shaped Python data: \<^verbatim>\<open>None\<close>, booleans, unbounded integers,
  strings, lists and dictionaries, and \<^verbatim>\<open>datetime\<close> objects. A string is a list of
  characters with code points below 256; a dictionary is an association list read with
  \<^const>\<open>map_of\<close> (a Python dictionary has no repeated key). A \<^verbatim>\<open>datetime\<close> is an
  instant, counted in microseconds since the epoch. Floating-point numbers and byte
  strings are not part of the model.
\<close>

type_synonym datetime = int

datatype pyval =
    PNone
  | PBool bool
  | PInt int
  | PStr string
  | PDatetime datetime
  | PList "pyval list"
  | PDict "(string \<times> pyval) list"

subsection \<open>Validation outcomes\<close>

text \<open>
  A failed construction raises one error carrying a list of line errors; each line error
  has a location (the field name, then list indices, nested field names or the member of
  a union that was tried) and a type. The types are the library's, named as it names them.
\<close>

datatype error_type =
    Missing
  | ExtraForbidden
  | StringType
  | IntType
  | IntParsing
  | BoolType
  | BoolParsing
  | DatetimeType
  | DatetimeParsing
  | ValueError
  | LiteralError
  | EnumError
  | ListType
  | ModelType

datatype loc_item = Field string | Index nat | Member string

type_synonym line_error = "loc_item list \<times> error_type"

type_synonym 'a validated = "line_error list + 'a"

definition fail :: "error_type \<Rightarrow> 'a validated" where
  "fail e = Inl [([], e)]"

definition under :: "loc_item \<Rightarrow> line_error list \<Rightarrow> line_error list" where
  "under i es = map (\<lambda>(l, e). (i # l, e)) es"

fun at_loc :: "loc_item \<Rightarrow> 'a validated \<Rightarrow> 'a validated" where
  "at_loc i (Inl es) = Inl (under i es)"
| "at_loc i (Inr x) = Inr x"

text \<open>
  Fields are validated one after the other and all their errors are reported together:
  \<open>collect\<close> applies a constructor under construction to the next field's outcome and
  appends the errors of both sides.
\<close>

fun collect :: "('a \<Rightarrow> 'b) validated \<Rightarrow> 'a validated \<Rightarrow> 'b validated" where
  "collect (Inr f) (Inr x) = Inr (f x)"
| "collect (Inr f) (Inl es) = Inl es"
| "collect (Inl es) (Inr x) = Inl es"
| "collect (Inl es) (Inl es') = Inl (es @ es')"

text \<open>The line errors of an outcome: none when it is an object.\<close>

fun errors_of :: "'a validated \<Rightarrow> line_error list" where
  "errors_of (Inl es) = es"
| "errors_of (Inr x) = []"

text \<open>
  A field with no default is required: absent from the input it is a \<open>Missing\<close> error.
  A field with a default takes the default, unvalidated, when absent
  (\<^verbatim>\<open>BaseModel\<close>); a settings class validates its defaults too
  (\<^verbatim>\<open>validate_default\<close> is on in \<^verbatim>\<open>BaseSettings\<close>).
\<close>

definition required ::
  "(pyval \<Rightarrow> 'a validated) \<Rightarrow> (string \<times> pyval) list \<Rightarrow> string \<Rightarrow> 'a validated" where
  "required f d name =
     (case map_of d name of
        None \<Rightarrow> Inl [([Field name], Missing)]
      | Some v \<Rightarrow> at_loc (Field name) (f v))"

definition with_default ::
  "'a \<Rightarrow> (pyval \<Rightarrow> 'a validated) \<Rightarrow> (string \<times> pyval) list \<Rightarrow> string \<Rightarrow> 'a validated" where
  "with_default dflt f d name =
     (case map_of d name of
        None \<Rightarrow> Inr dflt
      | Some v \<Rightarrow> at_loc (Field name) (f v))"

definition with_validated_default ::
  "pyval \<Rightarrow> (pyval \<Rightarrow> 'a validated) \<Rightarrow> (string \<times> pyval) list \<Rightarrow> string \<Rightarrow> 'a validated" where
  "with_validated_default dflt f d name =
     (case map_of d name of
        None \<Rightarrow> at_loc (Field name) (f dflt)
      | Some v \<Rightarrow> at_loc (Field name) (f v))"

subsection \<open>Letter case\<close>

text \<open>
  \<^verbatim>\<open>str.lower()\<close> on code points below 256: the letters A to Z and the accented
  capitals (192 to 222, the multiplication sign 215 apart) move up by 32, everything else
  stays. The library's own comparisons ignore the case of ASCII letters only.
\<close>

definition lower_char :: "char \<Rightarrow> char" where
  "lower_char c =
     (let n = (of_char c :: nat)
      in if (65 \<le> n \<and> n \<le> 90) \<or> (192 \<le> n \<and> n \<le> 222 \<and> n \<noteq> 215)
         then char_of (n + 32) else c)"

definition lower :: "string \<Rightarrow> string" where
  "lower s = map lower_char s"

definition ascii_lower_char :: "char \<Rightarrow> char" where
  "ascii_lower_char c =
     (let n = (of_char c :: nat)
      in if 65 \<le> n \<and> n \<le> 90 then char_of (n + 32) else c)"

definition ascii_upper_char :: "char \<Rightarrow> char" where
  "ascii_upper_char c =
     (let n = (of_char c :: nat)
      in if 97 \<le> n \<and> n \<le> 122 then char_of (n - 32) else c)"

text \<open>
  Every way of writing a lower-case ASCII word with each letter in either case: what
  "in any letter case" means for the words \<open>true\<close> and \<open>false\<close>.
\<close>

fun case_variants :: "string \<Rightarrow> string list" where
  "case_variants [] = [[]]"
| "case_variants (c # cs) =
     concat (map (\<lambda>w. [c # w, ascii_upper_char c # w]) (case_variants cs))"

subsection \<open>The library's validators for the annotations the classes use\<close>

text \<open>
  Conversions from text that the library implements with parsers of its own (decimal
  integers, ISO 8601 dates, e-mail addresses) and its reading of a number as a date are
  parameters of the model: every theorem holds whatever they accept.
\<close>

record library =
  str_as_int :: "string \<Rightarrow> int option"
  str_as_datetime :: "string \<Rightarrow> datetime option"
  int_as_datetime :: "int \<Rightarrow> datetime option"
  validate_email :: "string \<Rightarrow> string option"

text \<open>An instance that performs none of these conversions, for concrete examples.\<close>

definition no_conversions :: library where
  "no_conversions =
     \<lparr>str_as_int = (\<lambda>_. None), str_as_datetime = (\<lambda>_. None),
      int_as_datetime = (\<lambda>_. None), validate_email = (\<lambda>_. None)\<rparr>"

text \<open>\<^verbatim>\<open>str\<close>: a string, nothing else.\<close>

fun str_validator :: "pyval \<Rightarrow> string validated" where
  "str_validator (PStr s) = Inr s"
| "str_validator _ = fail StringType"

text \<open>\<^verbatim>\<open>int\<close>: an integer, a boolean read as 0 or 1, or a string that parses.\<close>

fun int_validator :: "library \<Rightarrow> pyval \<Rightarrow> int validated" where
  "int_validator L (PInt n) = Inr n"
| "int_validator L (PBool b) = Inr (if b then 1 else 0)"
| "int_validator L (PStr s) =
     (case str_as_int L s of Some n \<Rightarrow> Inr n | None \<Rightarrow> fail IntParsing)"
| "int_validator L _ = fail IntType"

text \<open>
  \<^verbatim>\<open>bool\<close>: a boolean, the integers 0 and 1, or one of twelve words.
\<close>

definition str_as_bool :: "string \<Rightarrow> bool validated" where
  "str_as_bool s =
     (let t = map ascii_lower_char s
      in if s = ''0'' \<or> t \<in> set [''f'', ''n'', ''no'', ''off'', ''false''] then Inr False
         else if s = ''1'' \<or> t \<in> set [''t'', ''y'', ''on'', ''yes'', ''true''] then Inr True
         else fail BoolParsing)"

definition int_as_bool :: "int \<Rightarrow> bool validated" where
  "int_as_bool n = (if n = 0 then Inr False else if n = 1 then Inr True else fail BoolParsing)"

fun bool_validator :: "pyval \<Rightarrow> bool validated" where
  "bool_validator (PBool b) = Inr b"
| "bool_validator (PStr s) = str_as_bool s"
| "bool_validator (PInt n) = int_as_bool n"
| "bool_validator _ = fail BoolType"

text \<open>
  \<^verbatim>\<open>datetime\<close>: a datetime object as it is; a string or a number as the library
  reads it; a boolean is refused though it is a number.
\<close>

fun datetime_validator :: "library \<Rightarrow> pyval \<Rightarrow> datetime validated" where
  "datetime_validator L (PDatetime t) = Inr t"
| "datetime_validator L (PStr s) =
     (case str_as_datetime L s of Some t \<Rightarrow> Inr t | None \<Rightarrow> fail DatetimeParsing)"
| "datetime_validator L (PBool b) = fail DatetimeType"
| "datetime_validator L (PInt n) =
     (case int_as_datetime L n of Some t \<Rightarrow> Inr t | None \<Rightarrow> fail DatetimeParsing)"
| "datetime_validator L _ = fail DatetimeType"

text \<open>\<^verbatim>\<open>EmailStr\<close>: a string that the e-mail check accepts, as the check returns it.\<close>

definition email_validator :: "library \<Rightarrow> pyval \<Rightarrow> string validated" where
  "email_validator L v =
     (case str_validator v of
        Inl es \<Rightarrow> Inl es
      | Inr s \<Rightarrow> (case validate_email L s of Some a \<Rightarrow> Inr a | None \<Rightarrow> fail ValueError))"

text \<open>\<^verbatim>\<open>T | None\<close>: \<^verbatim>\<open>None\<close>, or what \<^verbatim>\<open>T\<close> accepts.\<close>

definition nullable :: "(pyval \<Rightarrow> 'a validated) \<Rightarrow> pyval \<Rightarrow> 'a option validated" where
  "nullable f v = (case v of PNone \<Rightarrow> Inr None | _ \<Rightarrow> map_sum id Some (f v))"

text \<open>\<^verbatim>\<open>list[T]\<close>: a list whose items \<^verbatim>\<open>T\<close> accepts, errors located by index.\<close>

fun list_items :: "(pyval \<Rightarrow> 'a validated) \<Rightarrow> nat \<Rightarrow> pyval list \<Rightarrow> 'a list validated" where
  "list_items f i [] = Inr []"
| "list_items f i (v # vs) =
     collect (collect (Inr (#)) (at_loc (Index i) (f v))) (list_items f (Suc i) vs)"

definition list_validator :: "(pyval \<Rightarrow> 'a validated) \<Rightarrow> pyval \<Rightarrow> 'a list validated" where
  "list_validator f v = (case v of PList vs \<Rightarrow> list_items f 0 vs | _ \<Rightarrow> fail ListType)"

text \<open>
  \<^verbatim>\<open>bool | str\<close>: the union first looks for a member whose type the input has
  exactly, in the order written; failing that it takes the first member that accepts the
  input with conversion; failing that it reports every member's error.
\<close>

datatype bool_or_str = BoolVal bool | StrVal string

definition bool_or_str_validator :: "pyval \<Rightarrow> bool_or_str validated" where
  "bool_or_str_validator v =
     (case v of
        PBool b \<Rightarrow> Inr (BoolVal b)
      | PStr s \<Rightarrow> Inr (StrVal s)
      | _ \<Rightarrow>
         (case bool_validator v of
            Inr b \<Rightarrow> Inr (BoolVal b)
          | Inl es \<Rightarrow>
             (case str_validator v of
                Inr s \<Rightarrow> Inr (StrVal s)
              | Inl es' \<Rightarrow>
                 Inl (under (Member ''bool'') es @ under (Member ''str'') es'))))"

subsection \<open>\<^verbatim>\<open>schemas.py\<close>: JSON Web Keys\<close>

text \<open>
  \<^verbatim>\<open>class Keys(BaseModel)\<close>: six required strings. The fields \<^verbatim>\<open>e\<close> and \<^verbatim>\<open>n\<close>
  are named \<open>key_e\<close> and \<open>key_n\<close> here, the one-letter names being wanted for
  variables. \<^verbatim>\<open>class JWKSet(BaseModel)\<close>: a required list of keys.
\<close>

record Keys =
  alg :: string
  key_e :: string
  kid :: string
  kty :: string
  key_n :: string
  use :: string

definition Keys_validate :: "(string \<times> pyval) list \<Rightarrow> Keys validated" where
  "Keys_validate d =
     collect (collect (collect (collect (collect (collect
       (Inr (\<lambda>a e k t n u. \<lparr>alg = a, key_e = e, kid = k, kty = t, key_n = n, use = u\<rparr>))
       (required str_validator d ''alg''))
       (required str_validator d ''e''))
       (required str_validator d ''kid''))
       (required str_validator d ''kty''))
       (required str_validator d ''n''))
       (required str_validator d ''use'')"

text \<open>A model used as a field type takes a dictionary of its fields.\<close>

definition Keys_model :: "pyval \<Rightarrow> Keys validated" where
  "Keys_model v = (case v of PDict d \<Rightarrow> Keys_validate d | _ \<Rightarrow> fail ModelType)"

record JWKSet =
  keys :: "Keys list"

definition JWKSet_validate :: "(string \<times> pyval) list \<Rightarrow> JWKSet validated" where
  "JWKSet_validate d =
     collect (Inr (\<lambda>ks. \<lparr>keys = ks\<rparr>)) (required (list_validator Keys_model) d ''keys'')"

subsection \<open>\<^verbatim>\<open>schemas.py\<close>: the identity token\<close>

text \<open>
  \<^verbatim>\<open>class ASUserDetectionStatusEnum(IntEnum)\<close>: three members with the values 0, 1, 2.
  An integer enumeration takes what \<^verbatim>\<open>int\<close> takes and looks the number up.
\<close>

datatype ASUserDetectionStatusEnum = UNSUPPORTED | UNKNOWN | LIKELY_REAL

definition ASUserDetectionStatusEnum_members :: "(int \<times> ASUserDetectionStatusEnum) list" where
  "ASUserDetectionStatusEnum_members = [(0, UNSUPPORTED), (1, UNKNOWN), (2, LIKELY_REAL)]"

definition ASUserDetectionStatusEnum_validator ::
  "library \<Rightarrow> pyval \<Rightarrow> ASUserDetectionStatusEnum validated" where
  "ASUserDetectionStatusEnum_validator L v =
     (case int_validator L v of
        Inl es \<Rightarrow> fail EnumError
      | Inr n \<Rightarrow>
         (case map_of ASUserDetectionStatusEnum_members n of
            Some m \<Rightarrow> Inr m
          | None \<Rightarrow> fail EnumError))"

text \<open>
  The field validator of \<^verbatim>\<open>email_verified\<close> and \<^verbatim>\<open>is_private_email\<close>, run on the
  raw input before the annotation's own validation (\<^verbatim>\<open>mode="before"\<close>):
  \<^verbatim>\<open>
    def str_to_bool(cls, value):
        if isinstance(value, str):
            return value.lower() == "true"
        return value
  \<close>
\<close>

fun str_to_bool :: "pyval \<Rightarrow> pyval" where
  "str_to_bool (PStr s) = PBool (lower s = ''true'')"
| "str_to_bool v = v"

text \<open>
  The whole validation of such a field, annotated \<^verbatim>\<open>bool | str | None\<close>: the field
  validator, then \<^verbatim>\<open>None\<close> or the union.
\<close>

definition flag_validator :: "pyval \<Rightarrow> bool_or_str option validated" where
  "flag_validator v = nullable bool_or_str_validator (str_to_bool v)"

text \<open>A validated flag that holds no string: absent, or a boolean.\<close>

fun is_bool_or_none :: "bool_or_str option \<Rightarrow> bool" where
  "is_bool_or_none None = True"
| "is_bool_or_none (Some (BoolVal b)) = True"
| "is_bool_or_none (Some (StrVal s)) = False"

record IdentityToken =
  iss :: string
  sub :: string
  aud :: string
  iat :: datetime
  exp :: datetime
  nonce :: "string option"
  nonce_supported :: "bool option"
  email :: "string option"
  email_verified :: "bool_or_str option"
  is_private_email :: "bool_or_str option"
  real_user_status :: "ASUserDetectionStatusEnum option"
  transfer_sub :: "string option"

definition IdentityToken_validate ::
  "library \<Rightarrow> (string \<times> pyval) list \<Rightarrow> IdentityToken validated" where
  "IdentityToken_validate L d =
     collect (collect (collect (collect (collect (collect
     (collect (collect (collect (collect (collect (collect
       (Inr (\<lambda>a b c i x n ns e ev pe rus ts.
          \<lparr>iss = a, sub = b, aud = c, iat = i, exp = x, nonce = n, nonce_supported = ns,
           email = e, email_verified = ev, is_private_email = pe, real_user_status = rus,
           transfer_sub = ts\<rparr>))
       (required str_validator d ''iss''))
       (required str_validator d ''sub''))
       (required str_validator d ''aud''))
       (required (datetime_validator L) d ''iat''))
       (required (datetime_validator L) d ''exp''))
       (with_default None (nullable str_validator) d ''nonce''))
       (with_default None (nullable bool_validator) d ''nonce_supported''))
       (with_default None (nullable (email_validator L)) d ''email''))
       (with_default None flag_validator d ''email_verified''))
       (with_default None flag_validator d ''is_private_email''))
       (with_default None (nullable (ASUserDetectionStatusEnum_validator L)) d
          ''real_user_status''))
       (with_default None (nullable str_validator) d ''transfer_sub'')"

text \<open>An input with the five required fields only, and the token it gives.\<close>

definition example_claims :: "(string \<times> pyval) list" where
  "example_claims =
     [(''iss'', PStr ''https://appleid.apple.com''), (''sub'', PStr ''u1''),
      (''aud'', PStr ''com.example.app''), (''iat'', PDatetime 1000000),
      (''exp'', PDatetime 2000000)]"

definition example_token :: IdentityToken where
  "example_token =
     \<lparr>iss = ''https://appleid.apple.com'', sub = ''u1'', aud = ''com.example.app'',
      iat = 1000000, exp = 2000000, nonce = None, nonce_supported = None,
      email = None, email_verified = None, is_private_email = None,
      real_user_status = None, transfer_sub = None\<rparr>"

subsection \<open>\<^verbatim>\<open>schemas.py\<close>: the token response\<close>





subsection \<open>\<^verbatim>\<open>schemas.py\<close>: the error response\<close>

text \<open>
  \<^verbatim>\<open>class ErrorType(str, Enum)\<close>: six members, each with its string value. A string
  enumeration takes a string and looks it up among the values.
\<close>

datatype ErrorType =
    INVALID_REQUEST
  | INVALID_CLIENT
  | INVALID_GRANT
  | UNAUTHORIZED_CLIENT
  | UNSUPPORTED_GRANT_TYPE
  | INVALID_SCOPE

definition ErrorType_members :: "(string \<times> ErrorType) list" where
  "ErrorType_members =
     [(''invalid_request'', INVALID_REQUEST),
      (''invalid_client'', INVALID_CLIENT),
      (''invalid_grant'', INVALID_GRANT),
      (''unauthorized_client'', UNAUTHORIZED_CLIENT),
      (''unsupported_grant_type'', UNSUPPORTED_GRANT_TYPE),
      (''invalid_scope'', INVALID_SCOPE)]"

definition ErrorType_validator :: "pyval \<Rightarrow> ErrorType validated" where
  "ErrorType_validator v =
     (case v of
        PStr s \<Rightarrow> (case map_of ErrorType_members s of Some m \<Rightarrow> Inr m | None \<Rightarrow> fail EnumError)
      | _ \<Rightarrow> fail EnumError)"

record ErrorResponse =
  error :: ErrorType
  error_description :: "string option"
  error_uri :: "string option"

definition ErrorResponse_validate :: "(string \<times> pyval) list \<Rightarrow> ErrorResponse validated" where
  "ErrorResponse_validate d =
     collect (collect (collect
       (Inr (\<lambda>e ds u. \<lparr>error = e, error_description = ds, error_uri = u\<rparr>))
       (required ErrorType_validator d ''error''))
       (with_default None (nullable str_validator) d ''error_description''))
       (with_default None (nullable str_validator) d ''error_uri'')"

subsection \<open>\<^verbatim>\<open>settings.py\<close>: the configuration\<close>














section \<open>Properties\<close>

subsection \<open>Outcomes and fields\<close>

lemma collect_Inr_iff:
  "collect f x = Inr y \<longleftrightarrow> (\<exists>g v. f = Inr g \<and> x = Inr v \<and> y = g v)"
  by (cases f; cases x) auto

lemma isl_collect: "isl (collect f x) \<longleftrightarrow> isl f \<or> isl x"
  by (cases f; cases x) auto

lemma errors_of_collect: "errors_of (collect f x) = errors_of f @ errors_of x"
  by (cases f; cases x) auto

lemma at_loc_Inr_iff: "at_loc i r = Inr x \<longleftrightarrow> r = Inr x"
  by (cases r) auto

lemma required_Inr_iff:
  "required f d k = Inr x \<longleftrightarrow> (\<exists>v. map_of d k = Some v \<and> f v = Inr x)"
  by (auto simp: required_def at_loc_Inr_iff split: option.splits)

lemma with_default_Inr_iff:
  "with_default a f d k = Inr x \<longleftrightarrow>
     (map_of d k = None \<and> x = a) \<or> (\<exists>v. map_of d k = Some v \<and> f v = Inr x)"
  by (auto simp: with_default_def at_loc_Inr_iff split: option.splits)


lemma nullable_Inr_iff:
  "nullable f v = Inr x \<longleftrightarrow>
     (v = PNone \<and> x = None) \<or> (v \<noteq> PNone \<and> (\<exists>y. f v = Inr y \<and> x = Some y))"
  by (cases v; cases "f v") (auto simp: nullable_def)

lemma required_Cons:
  "required f ((k, v) # d) k' = (if k' = k then at_loc (Field k') (f v) else required f d k')"
  by (simp add: required_def)

lemma with_default_Cons:
  "with_default a f ((k, v) # d) k' =
     (if k' = k then at_loc (Field k') (f v) else with_default a f d k')"
  by (simp add: with_default_def)

subsection \<open>Letter case\<close>

lemma lower_char_eq_iff:
  "lower_char c = d \<longleftrightarrow>
     (let n = (of_char c :: nat); m = (of_char d :: nat)
      in if (65 \<le> n \<and> n \<le> 90) \<or> (192 \<le> n \<and> n \<le> 222 \<and> n \<noteq> 215)
         then m = n + 32 else m = n)"
proof -
  have "(char_of (of_char c + 32 :: nat) = d) = (of_char c + 32 = (of_char d :: nat))"
    if "(of_char c :: nat) \<le> 222"
    using that by (simp add: char_of_eq_iff take_bit_eq_mod)
  moreover have "(c = d) = ((of_char d :: nat) = of_char c)"
    by (auto simp: of_char_eq_iff)
  ultimately show ?thesis
    by (auto simp: lower_char_def Let_def)
qed

lemma ascii_upper_char_eq_iff:
  assumes "97 \<le> (of_char d :: nat)" "(of_char d :: nat) \<le> 122"
  shows "c = ascii_upper_char d \<longleftrightarrow> (of_char c :: nat) = of_char d - 32"
proof -
  have "(of_char d :: nat) - 32 < 256"
    using assms by simp
  then have "(char_of (of_char d - 32 :: nat) = c) = (of_char d - 32 = (of_char c :: nat))"
    by (simp add: char_of_eq_iff take_bit_eq_mod)
  with assms show ?thesis
    by (auto simp: ascii_upper_char_def Let_def)
qed

lemma lower_char_eq_letter:
  assumes "97 \<le> (of_char d :: nat)" "(of_char d :: nat) \<le> 122"
  shows "lower_char c = d \<longleftrightarrow> c = d \<or> c = ascii_upper_char d"
proof -
  define n m where "n = (of_char c :: nat)" and "m = (of_char d :: nat)"
  have eq: "(c = d) = (n = m)"
    by (simp add: n_def m_def of_char_eq_iff)
  have up: "(c = ascii_upper_char d) = (n = m - 32)"
    using ascii_upper_char_eq_iff [OF assms] by (simp add: n_def m_def)
  have lo: "(lower_char c = d) =
      (if (65 \<le> n \<and> n \<le> 90) \<or> (192 \<le> n \<and> n \<le> 222 \<and> n \<noteq> 215)
       then m = n + 32 else m = n)"
    by (simp add: lower_char_eq_iff Let_def n_def m_def)
  have "97 \<le> m" "m \<le> 122"
    using assms by (simp_all add: m_def)
  then show ?thesis
    unfolding eq up lo by (simp split: if_splits) arith
qed

lemma lower_eq_iff_case_variants:
  assumes "\<forall>c \<in> set w. 97 \<le> (of_char c :: nat) \<and> (of_char c :: nat) \<le> 122"
  shows "lower s = w \<longleftrightarrow> s \<in> set (case_variants w)"
  using assms
proof (induction w arbitrary: s)
  case Nil
  then show ?case by (simp add: lower_def)
next
  case (Cons d w)
  have IH: "\<And>s. (lower s = w) = (s \<in> set (case_variants w))"
    using Cons by simp
  have d: "97 \<le> (of_char d :: nat)" "(of_char d :: nat) \<le> 122"
    using Cons.prems by simp_all
  show ?case
  proof (cases s)
    case Nil
    then show ?thesis by (auto simp: lower_def)
  next
    case (Cons c s')
    have "lower s = d # w \<longleftrightarrow> lower_char c = d \<and> lower s' = w"
      by (simp add: Cons lower_def)
    also have "\<dots> \<longleftrightarrow> (c = d \<or> c = ascii_upper_char d) \<and> s' \<in> set (case_variants w)"
      by (simp add: lower_char_eq_letter [OF d] IH)
    also have "\<dots> \<longleftrightarrow> s \<in> set (case_variants (d # w))"
      by (auto simp: Cons)
    finally show ?thesis .
  qed
qed

lemma lower_true_iff: "lower s = ''true'' \<longleftrightarrow> s \<in> set (case_variants ''true'')"
  by (rule lower_eq_iff_case_variants) simp

lemma lower_false_iff: "lower s = ''false'' \<longleftrightarrow> s \<in> set (case_variants ''false'')"
  by (rule lower_eq_iff_case_variants) simp

subsection \<open>Keys\<close>

text \<open>
  C8. The documentation of \<^verbatim>\<open>Keys\<close> says of \<^verbatim>\<open>kty\<close> "You must set to 'RSA'", and
  the claim is that a key with any other \<^verbatim>\<open>kty\<close> cannot be constructed. The field is
  annotated \<^verbatim>\<open>str\<close> and nothing checks its value: a key whose \<^verbatim>\<open>kty\<close> is \<open>EC\<close> is
  constructed, with that \<^verbatim>\<open>kty\<close>.
\<close>

theorem Keys_accepts_kty_other_than_RSA:
  "Keys_validate
     [(''alg'', PStr ''ES256''), (''e'', PStr ''AQAB''), (''kid'', PStr ''k1''),
      (''kty'', PStr ''EC''), (''n'', PStr ''xyz''), (''use'', PStr ''sig'')]
   = Inr \<lparr>alg = ''ES256'', key_e = ''AQAB'', kid = ''k1'', kty = ''EC'', key_n = ''xyz'',
          use = ''sig''\<rparr>"
  by (simp add: Keys_validate_def required_def)

lemma list_items_Inr_iff:
  "list_items f i vs = Inr ks \<longleftrightarrow> list_all2 (\<lambda>v k. f v = Inr k) vs ks"
proof (induction vs arbitrary: i ks)
  case Nil
  then show ?case by auto
next
  case (Cons v vs)
  show ?case
    by (cases ks) (auto simp: collect_Inr_iff at_loc_Inr_iff Cons.IH)
qed

text \<open>
  C7. The claim is that a \<^verbatim>\<open>JWKSet\<close> whose keys repeat a \<^verbatim>\<open>kid\<close> cannot be
  constructed. \<^verbatim>\<open>keys\<close> is annotated \<^verbatim>\<open>list[Keys]\<close> and the class has no
  validator: a \<^verbatim>\<open>JWKSet\<close> is constructed exactly when every item of the list is a
  valid key, and it holds those keys, all of them and in the order given, whatever their
  \<^verbatim>\<open>kid\<close>.
\<close>

theorem JWKSet_keeps_every_key:
  assumes "map_of d ''keys'' = Some (PList vs)"
  shows "JWKSet_validate d = Inr j \<longleftrightarrow> list_all2 (\<lambda>v k. Keys_model v = Inr k) vs (keys j)"
  using assms
  by (cases j)
    (auto simp: JWKSet_validate_def collect_Inr_iff required_Inr_iff list_validator_def
      list_items_Inr_iff)

theorem JWKSet_keeps_every_key_witness:
  "map_of [(''keys'', PList
        [PDict [(''alg'', PStr ''RS256''), (''e'', PStr ''AQAB''), (''kid'', PStr ''k1''),
                (''kty'', PStr ''RSA''), (''n'', PStr ''abc''), (''use'', PStr ''sig'')]])]
     ''keys'' = Some (PList
        [PDict [(''alg'', PStr ''RS256''), (''e'', PStr ''AQAB''), (''kid'', PStr ''k1''),
                (''kty'', PStr ''RSA''), (''n'', PStr ''abc''), (''use'', PStr ''sig'')]]) \<and>
   JWKSet_validate [(''keys'', PList
        [PDict [(''alg'', PStr ''RS256''), (''e'', PStr ''AQAB''), (''kid'', PStr ''k1''),
                (''kty'', PStr ''RSA''), (''n'', PStr ''abc''), (''use'', PStr ''sig'')]])]
   = Inr \<lparr>keys =
       [\<lparr>alg = ''RS256'', key_e = ''AQAB'', kid = ''k1'', kty = ''RSA'', key_n = ''abc'',
         use = ''sig''\<rparr>]\<rparr>"
proof -
  have k: "Keys_model
      (PDict [(''alg'', PStr ''RS256''), (''e'', PStr ''AQAB''), (''kid'', PStr ''k1''),
                (''kty'', PStr ''RSA''), (''n'', PStr ''abc''), (''use'', PStr ''sig'')])
    = Inr \<lparr>alg = ''RS256'', key_e = ''AQAB'', kid = ''k1'', kty = ''RSA'', key_n = ''abc'',
         use = ''sig''\<rparr>"
    by (simp add: Keys_model_def Keys_validate_def required_def)
  have m: "map_of [(''keys'', PList
        [PDict [(''alg'', PStr ''RS256''), (''e'', PStr ''AQAB''), (''kid'', PStr ''k1''),
                (''kty'', PStr ''RSA''), (''n'', PStr ''abc''), (''use'', PStr ''sig'')]])]
     ''keys'' = Some (PList
        [PDict [(''alg'', PStr ''RS256''), (''e'', PStr ''AQAB''), (''kid'', PStr ''k1''),
                (''kty'', PStr ''RSA''), (''n'', PStr ''abc''), (''use'', PStr ''sig'')]])"
    by simp
  from JWKSet_keeps_every_key [OF m,
      of "\<lparr>keys = [\<lparr>alg = ''RS256'', key_e = ''AQAB'', kid = ''k1'', kty = ''RSA'',
         key_n = ''abc'', use = ''sig''\<rparr>]\<rparr>"] k m
  show ?thesis by simp
qed

text \<open>
  The claim as stated fails: two keys with the same \<^verbatim>\<open>kid\<close> make a \<^verbatim>\<open>JWKSet\<close>.
\<close>

theorem JWKSet_accepts_repeated_kid:
  "JWKSet_validate
     [(''keys'', PList
        [PDict [(''alg'', PStr ''RS256''), (''e'', PStr ''AQAB''), (''kid'', PStr ''k1''),
                (''kty'', PStr ''RSA''), (''n'', PStr ''abc''), (''use'', PStr ''sig'')],
         PDict [(''alg'', PStr ''RS256''), (''e'', PStr ''AQAB''), (''kid'', PStr ''k1''),
                (''kty'', PStr ''RSA''), (''n'', PStr ''xyz''), (''use'', PStr ''sig'')]])]
   = Inr \<lparr>keys =
       [\<lparr>alg = ''RS256'', key_e = ''AQAB'', kid = ''k1'', kty = ''RSA'', key_n = ''abc'',
         use = ''sig''\<rparr>,
        \<lparr>alg = ''RS256'', key_e = ''AQAB'', kid = ''k1'', kty = ''RSA'', key_n = ''xyz'',
         use = ''sig''\<rparr>]\<rparr> \<and>
   \<not> distinct (map kid
       [\<lparr>alg = ''RS256'', key_e = ''AQAB'', kid = ''k1'', kty = ''RSA'', key_n = ''abc'',
         use = ''sig''\<rparr>,
        \<lparr>alg = ''RS256'', key_e = ''AQAB'', kid = ''k1'', kty = ''RSA'', key_n = ''xyz'',
         use = ''sig''\<rparr>])"
  by (simp add: JWKSet_validate_def required_def list_validator_def Keys_model_def
      Keys_validate_def)

subsection \<open>The error response\<close>

lemma ErrorType_lookup_Some:
  "map_of ErrorType_members s = Some m \<Longrightarrow> s \<in> set (map fst ErrorType_members)"
  by (metis map_of_eq_None_iff option.distinct(1) set_map)

text \<open>
  C2. An \<^verbatim>\<open>ErrorResponse\<close> is constructed only from an input whose \<^verbatim>\<open>error\<close> is one
  of the six strings of the enumeration; with any other string as \<^verbatim>\<open>error\<close> the
  construction fails, with an enumeration error located at that field.
\<close>

theorem ErrorResponse_error_closed:
  "(ErrorResponse_validate d = Inr r \<longrightarrow>
      (\<exists>s. map_of d ''error'' = Some (PStr s) \<and>
           s \<in> {''invalid_request'', ''invalid_client'', ''invalid_grant'',
                ''unauthorized_client'', ''unsupported_grant_type'', ''invalid_scope''})) \<and>
   (map_of d' ''error'' = Some (PStr s') \<and>
      s' \<notin> {''invalid_request'', ''invalid_client'', ''invalid_grant'',
            ''unauthorized_client'', ''unsupported_grant_type'', ''invalid_scope''} \<longrightarrow>
      (\<exists>es. ErrorResponse_validate d' = Inl es \<and> ([Field ''error''], EnumError) \<in> set es))"
proof (intro conjI impI)
  assume "ErrorResponse_validate d = Inr r"
  then obtain v m where v: "map_of d ''error'' = Some v" and m: "ErrorType_validator v = Inr m"
    by (auto simp: ErrorResponse_validate_def collect_Inr_iff required_Inr_iff)
  from m obtain s where s: "v = PStr s" and l: "map_of ErrorType_members s = Some m"
    by (auto simp: ErrorType_validator_def fail_def split: pyval.splits option.splits)
  from l have "s \<in> set (map fst ErrorType_members)"
    by (rule ErrorType_lookup_Some)
  then have "s \<in> {''invalid_request'', ''invalid_client'', ''invalid_grant'',
                ''unauthorized_client'', ''unsupported_grant_type'', ''invalid_scope''}"
    by (simp add: ErrorType_members_def)
  with v s show "\<exists>s. map_of d ''error'' = Some (PStr s) \<and>
           s \<in> {''invalid_request'', ''invalid_client'', ''invalid_grant'',
                ''unauthorized_client'', ''unsupported_grant_type'', ''invalid_scope''}"
    by simp
next
  assume a: "map_of d' ''error'' = Some (PStr s') \<and>
      s' \<notin> {''invalid_request'', ''invalid_client'', ''invalid_grant'',
            ''unauthorized_client'', ''unsupported_grant_type'', ''invalid_scope''}"
  then have "map_of ErrorType_members s' = None"
    by (simp add: ErrorType_members_def)
  with a have "required ErrorType_validator d' ''error'' = Inl [([Field ''error''], EnumError)]"
    by (simp add: required_def ErrorType_validator_def fail_def under_def)
  then have "isl (ErrorResponse_validate d')"
    and "([Field ''error''], EnumError) \<in> set (errors_of (ErrorResponse_validate d'))"
    by (simp_all add: ErrorResponse_validate_def isl_collect errors_of_collect)
  then show "\<exists>es. ErrorResponse_validate d' = Inl es \<and> ([Field ''error''], EnumError) \<in> set es"
    by (cases "ErrorResponse_validate d'") auto
qed

theorem ErrorResponse_error_closed_witness:
  "ErrorResponse_validate [(''error'', PStr ''invalid_grant'')] =
     Inr \<lparr>error = INVALID_GRANT, error_description = None, error_uri = None\<rparr> \<and>
   map_of [(''error'', PStr ''invalid_grant'')] ''error'' = Some (PStr ''invalid_grant'') \<and>
   map_of [(''error'', PStr ''access_denied'')] ''error'' = Some (PStr ''access_denied'') \<and>
   (\<exists>es. ErrorResponse_validate [(''error'', PStr ''access_denied'')] = Inl es \<and>
         ([Field ''error''], EnumError) \<in> set es)"
  using ErrorResponse_error_closed
    [of "[(''error'', PStr ''invalid_grant'')]"
        "\<lparr>error = INVALID_GRANT, error_description = None, error_uri = None\<rparr>"
        "[(''error'', PStr ''access_denied'')]" "''access_denied''"]
  by (simp add: ErrorResponse_validate_def required_def with_default_def
      ErrorType_validator_def ErrorType_members_def)

subsection \<open>The token response\<close>




subsection \<open>The identity token\<close>

lemma IdentityToken_validate_InrE:
  assumes "IdentityToken_validate L d = Inr t"
  obtains a b c i x n ns e ev pe rus ts where
        "required str_validator d ''iss'' = Inr a"
        "required str_validator d ''sub'' = Inr b"
        "required str_validator d ''aud'' = Inr c"
        "required (datetime_validator L) d ''iat'' = Inr i"
        "required (datetime_validator L) d ''exp'' = Inr x"
        "with_default None (nullable str_validator) d ''nonce'' = Inr n"
        "with_default None (nullable bool_validator) d ''nonce_supported'' = Inr ns"
        "with_default None (nullable (email_validator L)) d ''email'' = Inr e"
        "with_default None flag_validator d ''email_verified'' = Inr ev"
        "with_default None flag_validator d ''is_private_email'' = Inr pe"
        "with_default None (nullable (ASUserDetectionStatusEnum_validator L)) d
          ''real_user_status'' = Inr rus"
        "with_default None (nullable str_validator) d ''transfer_sub'' = Inr ts"
        "t = \<lparr>iss = a, sub = b, aud = c, iat = i, exp = x, nonce = n, nonce_supported = ns,
             email = e, email_verified = ev, is_private_email = pe, real_user_status = rus,
             transfer_sub = ts\<rparr>"
  using assms unfolding IdentityToken_validate_def collect_Inr_iff by auto

lemma IdentityToken_validate_InrI:
  assumes "required str_validator d ''iss'' = Inr a"
        "required str_validator d ''sub'' = Inr b"
        "required str_validator d ''aud'' = Inr c"
        "required (datetime_validator L) d ''iat'' = Inr i"
        "required (datetime_validator L) d ''exp'' = Inr x"
        "with_default None (nullable str_validator) d ''nonce'' = Inr n"
        "with_default None (nullable bool_validator) d ''nonce_supported'' = Inr ns"
        "with_default None (nullable (email_validator L)) d ''email'' = Inr e"
        "with_default None flag_validator d ''email_verified'' = Inr ev"
        "with_default None flag_validator d ''is_private_email'' = Inr pe"
        "with_default None (nullable (ASUserDetectionStatusEnum_validator L)) d
          ''real_user_status'' = Inr rus"
        "with_default None (nullable str_validator) d ''transfer_sub'' = Inr ts"
  shows "IdentityToken_validate L d =
     Inr \<lparr>iss = a, sub = b, aud = c, iat = i, exp = x, nonce = n, nonce_supported = ns,
             email = e, email_verified = ev, is_private_email = pe, real_user_status = rus,
             transfer_sub = ts\<rparr>"
  using assms by (simp add: IdentityToken_validate_def)


lemma example_token_validated:
  "IdentityToken_validate no_conversions example_claims = Inr example_token"
  by (simp add: IdentityToken_validate_def required_def with_default_def
      example_claims_def example_token_def)

lemma lower_examples:
  "lower ''TRUE'' = ''true''" "lower ''False'' = ''false''" "lower ''yes'' = ''yes''"
  by (simp_all add: lower_def lower_char_def char_of_eq_iff)

lemma flag_validator_PStr: "flag_validator (PStr s) = Inr (Some (BoolVal (lower s = ''true'')))"
  by (simp add: flag_validator_def nullable_def bool_or_str_validator_def)

lemma flag_validator_PBool: "flag_validator (PBool b) = Inr (Some (BoolVal b))"
  by (simp add: flag_validator_def nullable_def bool_or_str_validator_def)

lemma IdentityToken_set_email_verified:
  assumes "IdentityToken_validate L d = Inr t" and v: "flag_validator v = Inr y"
  shows "IdentityToken_validate L ((''email_verified'', v) # d) = Inr (t\<lparr>email_verified := y\<rparr>)"
proof -
  from assms(1) obtain a b c i x n ns e ev pe rus ts where
        f: "required str_validator d ''iss'' = Inr a"
        "required str_validator d ''sub'' = Inr b"
        "required str_validator d ''aud'' = Inr c"
        "required (datetime_validator L) d ''iat'' = Inr i"
        "required (datetime_validator L) d ''exp'' = Inr x"
        "with_default None (nullable str_validator) d ''nonce'' = Inr n"
        "with_default None (nullable bool_validator) d ''nonce_supported'' = Inr ns"
        "with_default None (nullable (email_validator L)) d ''email'' = Inr e"
        "with_default None flag_validator d ''email_verified'' = Inr ev"
        "with_default None flag_validator d ''is_private_email'' = Inr pe"
        "with_default None (nullable (ASUserDetectionStatusEnum_validator L)) d
          ''real_user_status'' = Inr rus"
        "with_default None (nullable str_validator) d ''transfer_sub'' = Inr ts"
     and t: "t = \<lparr>iss = a, sub = b, aud = c, iat = i, exp = x, nonce = n,
             nonce_supported = ns,
             email = e, email_verified = ev, is_private_email = pe, real_user_status = rus,
             transfer_sub = ts\<rparr>"
    by (rule IdentityToken_validate_InrE)
  have "IdentityToken_validate L ((''email_verified'', v) # d) =
      Inr \<lparr>iss = a, sub = b, aud = c, iat = i, exp = x, nonce = n,
             nonce_supported = ns,
             email = e, email_verified = y, is_private_email = pe, real_user_status = rus,
             transfer_sub = ts\<rparr>"
    by (rule IdentityToken_validate_InrI) (simp_all add: required_Cons with_default_Cons f v)
  then show ?thesis by (simp add: t)
qed

lemma IdentityToken_set_is_private_email:
  assumes "IdentityToken_validate L d = Inr t" and v: "flag_validator v = Inr y"
  shows "IdentityToken_validate L ((''is_private_email'', v) # d) =
     Inr (t\<lparr>is_private_email := y\<rparr>)"
proof -
  from assms(1) obtain a b c i x n ns e ev pe rus ts where
        f: "required str_validator d ''iss'' = Inr a"
        "required str_validator d ''sub'' = Inr b"
        "required str_validator d ''aud'' = Inr c"
        "required (datetime_validator L) d ''iat'' = Inr i"
        "required (datetime_validator L) d ''exp'' = Inr x"
        "with_default None (nullable str_validator) d ''nonce'' = Inr n"
        "with_default None (nullable bool_validator) d ''nonce_supported'' = Inr ns"
        "with_default None (nullable (email_validator L)) d ''email'' = Inr e"
        "with_default None flag_validator d ''email_verified'' = Inr ev"
        "with_default None flag_validator d ''is_private_email'' = Inr pe"
        "with_default None (nullable (ASUserDetectionStatusEnum_validator L)) d
          ''real_user_status'' = Inr rus"
        "with_default None (nullable str_validator) d ''transfer_sub'' = Inr ts"
     and t: "t = \<lparr>iss = a, sub = b, aud = c, iat = i, exp = x, nonce = n,
             nonce_supported = ns,
             email = e, email_verified = ev, is_private_email = pe, real_user_status = rus,
             transfer_sub = ts\<rparr>"
    by (rule IdentityToken_validate_InrE)
  have "IdentityToken_validate L ((''is_private_email'', v) # d) =
      Inr \<lparr>iss = a, sub = b, aud = c, iat = i, exp = x, nonce = n,
             nonce_supported = ns,
             email = e, email_verified = ev, is_private_email = y, real_user_status = rus,
             transfer_sub = ts\<rparr>"
    by (rule IdentityToken_validate_InrI) (simp_all add: required_Cons with_default_Cons f v)
  then show ?thesis by (simp add: t)
qed

lemma case_variants_false_not_true:
  "s \<in> set (case_variants ''false'') \<Longrightarrow> s \<notin> set (case_variants ''true'')"
  unfolding lower_true_iff [symmetric] lower_false_iff [symmetric] by simp

text \<open>
  C10. From an input that gives the five required fields valid values and none of the
  seven optional fields, an \<^verbatim>\<open>IdentityToken\<close> is constructed, and each of its optional
  fields is \<^verbatim>\<open>None\<close>.
\<close>

theorem IdentityToken_required_fields_only:
  assumes "map_of d ''iss'' = Some (PStr a)"
    and "map_of d ''sub'' = Some (PStr b)"
    and "map_of d ''aud'' = Some (PStr c)"
    and "map_of d ''iat'' = Some vi" and "datetime_validator L vi = Inr i"
    and "map_of d ''exp'' = Some vx" and "datetime_validator L vx = Inr x"
    and "map_of d ''nonce'' = None"
    and "map_of d ''nonce_supported'' = None"
    and "map_of d ''email'' = None"
    and "map_of d ''email_verified'' = None"
    and "map_of d ''is_private_email'' = None"
    and "map_of d ''real_user_status'' = None"
    and "map_of d ''transfer_sub'' = None"
  shows "IdentityToken_validate L d =
     Inr \<lparr>iss = a, sub = b, aud = c, iat = i, exp = x, nonce = None, nonce_supported = None,
          email = None, email_verified = None, is_private_email = None,
          real_user_status = None, transfer_sub = None\<rparr>"
  using assms by (simp add: IdentityToken_validate_def required_def with_default_def)

theorem IdentityToken_required_fields_only_witness:
  "IdentityToken_validate no_conversions
     [(''iss'', PStr ''https://appleid.apple.com''), (''sub'', PStr ''u1''),
      (''aud'', PStr ''com.example.app''), (''iat'', PDatetime 1000000),
      (''exp'', PDatetime 2000000)]
   = Inr \<lparr>iss = ''https://appleid.apple.com'', sub = ''u1'', aud = ''com.example.app'',
          iat = 1000000, exp = 2000000, nonce = None, nonce_supported = None,
          email = None, email_verified = None, is_private_email = None,
          real_user_status = None, transfer_sub = None\<rparr>"
  by (rule IdentityToken_required_fields_only
        [where vi = "PDatetime 1000000" and vx = "PDatetime 2000000"]) simp_all

lemma bool_or_str_validator_bool:
  "bool_or_str_validator v = Inr y \<Longrightarrow> (\<forall>s. v \<noteq> PStr s) \<Longrightarrow> \<exists>b. y = BoolVal b"
  by (cases v) (auto simp: bool_or_str_validator_def fail_def split: sum.splits)

lemma str_to_bool_not_str: "str_to_bool v \<noteq> PStr s"
  by (cases v) auto

lemma flag_validator_bool_or_none:
  "flag_validator v = Inr x \<Longrightarrow> is_bool_or_none x"
  using bool_or_str_validator_bool [of "str_to_bool v"]
  by (auto simp: flag_validator_def nullable_Inr_iff str_to_bool_not_str)

text \<open>
  C9. In every constructed \<^verbatim>\<open>IdentityToken\<close>, whatever the input was,
  \<^verbatim>\<open>email_verified\<close> and \<^verbatim>\<open>is_private_email\<close> are each \<^verbatim>\<open>None\<close> or a boolean,
  never a string.
\<close>

theorem IdentityToken_flags_never_strings:
  assumes "IdentityToken_validate L d = Inr t"
  shows "is_bool_or_none (email_verified t) \<and> is_bool_or_none (is_private_email t)"
proof -
  from assms obtain ev pe where
    "with_default None flag_validator d ''email_verified'' = Inr ev"
    "with_default None flag_validator d ''is_private_email'' = Inr pe"
    "email_verified t = ev" "is_private_email t = pe"
    by (auto simp: IdentityToken_validate_def collect_Inr_iff)
  then show ?thesis
    by (auto simp: with_default_Inr_iff dest: flag_validator_bool_or_none)
qed

theorem IdentityToken_flags_never_strings_witness:
  "IdentityToken_validate no_conversions
     ((''email_verified'', PStr ''TRUE'') # example_claims) =
     Inr (example_token\<lparr>email_verified := Some (BoolVal True)\<rparr>) \<and>
   is_bool_or_none (email_verified (example_token\<lparr>email_verified := Some (BoolVal True)\<rparr>)) \<and>
   is_bool_or_none (is_private_email (example_token\<lparr>email_verified := Some (BoolVal True)\<rparr>))"
proof -
  have h: "IdentityToken_validate no_conversions
     ((''email_verified'', PStr ''TRUE'') # example_claims) =
     Inr (example_token\<lparr>email_verified := Some (BoolVal True)\<rparr>)"
    by (rule IdentityToken_set_email_verified [OF example_token_validated])
      (simp add: flag_validator_PStr lower_examples)
  from IdentityToken_flags_never_strings [OF h] h show ?thesis by simp
qed

text \<open>
  C6. The claim is that a token whose \<^verbatim>\<open>iat\<close> is not earlier than its \<^verbatim>\<open>exp\<close>
  cannot be constructed. The class has no validator relating the two fields: each is
  validated as a \<^verbatim>\<open>datetime\<close> on its own. So whatever input is accepted, it is still
  accepted with any two instants as \<^verbatim>\<open>iat\<close> and \<^verbatim>\<open>exp\<close>, in either order, and the
  token holds exactly those.
\<close>

theorem IdentityToken_iat_exp_unrelated:
  assumes "IdentityToken_validate L d = Inr t"
  shows "IdentityToken_validate L ((''iat'', PDatetime i) # (''exp'', PDatetime x) # d) =
           Inr (t\<lparr>iat := i, exp := x\<rparr>)"
proof -
  from assms obtain a b c i0 x0 n ns e ev pe rus ts where
        f: "required str_validator d ''iss'' = Inr a"
        "required str_validator d ''sub'' = Inr b"
        "required str_validator d ''aud'' = Inr c"
        "required (datetime_validator L) d ''iat'' = Inr i0"
        "required (datetime_validator L) d ''exp'' = Inr x0"
        "with_default None (nullable str_validator) d ''nonce'' = Inr n"
        "with_default None (nullable bool_validator) d ''nonce_supported'' = Inr ns"
        "with_default None (nullable (email_validator L)) d ''email'' = Inr e"
        "with_default None flag_validator d ''email_verified'' = Inr ev"
        "with_default None flag_validator d ''is_private_email'' = Inr pe"
        "with_default None (nullable (ASUserDetectionStatusEnum_validator L)) d
          ''real_user_status'' = Inr rus"
        "with_default None (nullable str_validator) d ''transfer_sub'' = Inr ts"
     and t: "t = \<lparr>iss = a, sub = b, aud = c, iat = i0, exp = x0, nonce = n,
             nonce_supported = ns,
             email = e, email_verified = ev, is_private_email = pe, real_user_status = rus,
             transfer_sub = ts\<rparr>"
    by (rule IdentityToken_validate_InrE)
  have "IdentityToken_validate L ((''iat'', PDatetime i) # (''exp'', PDatetime x) # d) =
      Inr \<lparr>iss = a, sub = b, aud = c, iat = i, exp = x, nonce = n,
             nonce_supported = ns,
             email = e, email_verified = ev, is_private_email = pe, real_user_status = rus,
             transfer_sub = ts\<rparr>"
    by (rule IdentityToken_validate_InrI) (simp_all add: required_Cons with_default_Cons f)
  then show ?thesis by (simp add: t)
qed

theorem IdentityToken_iat_exp_unrelated_witness:
  "IdentityToken_validate no_conversions example_claims = Inr example_token \<and>
   IdentityToken_validate no_conversions
     ((''iat'', PDatetime 2000000) # (''exp'', PDatetime 1000000) # example_claims) =
     Inr (example_token\<lparr>iat := 2000000, exp := 1000000\<rparr>)"
  using IdentityToken_iat_exp_unrelated [OF example_token_validated, of 2000000 1000000]
    example_token_validated
  by simp

text \<open>
  The claim as stated fails: a token issued at second 2 and expiring at second 1 is
  constructed.
\<close>

theorem IdentityToken_iat_after_exp_accepted:
  "IdentityToken_validate no_conversions
     [(''iss'', PStr ''https://appleid.apple.com''), (''sub'', PStr ''u1''),
      (''aud'', PStr ''com.example.app''), (''iat'', PDatetime 2000000),
      (''exp'', PDatetime 1000000)]
   = Inr \<lparr>iss = ''https://appleid.apple.com'', sub = ''u1'', aud = ''com.example.app'',
          iat = 2000000, exp = 1000000, nonce = None, nonce_supported = None,
          email = None, email_verified = None, is_private_email = None,
          real_user_status = None, transfer_sub = None\<rparr> \<and>
   \<not> (2000000 :: datetime) < 1000000"
  by (simp add: IdentityToken_validate_def required_def with_default_def)

text \<open>
  C1. The claim is that for \<^verbatim>\<open>email_verified\<close> and \<^verbatim>\<open>is_private_email\<close> the
  string \<open>true\<close> in any letter case becomes \<^verbatim>\<open>True\<close>, \<open>false\<close> in any letter case
  becomes \<^verbatim>\<open>False\<close>, a boolean stays as it is, and any other string is rejected. The
  field validator returns \<^verbatim>\<open>value.lower() == "true"\<close> for every string, so no
  string is rejected: every string that is not \<open>true\<close> in some letter case becomes
  \<^verbatim>\<open>False\<close>. Stated on an accepted input \<open>d\<close> whose field is set to the value in
  question: the input stays accepted, and the token differs in that field only.
\<close>

theorem IdentityToken_flag_normalization:
  assumes "IdentityToken_validate L d = Inr t"
  shows
    "(s1 \<in> set (case_variants ''true'') \<longrightarrow>
        IdentityToken_validate L ((''email_verified'', PStr s1) # d) =
          Inr (t\<lparr>email_verified := Some (BoolVal True)\<rparr>) \<and>
        IdentityToken_validate L ((''is_private_email'', PStr s1) # d) =
          Inr (t\<lparr>is_private_email := Some (BoolVal True)\<rparr>)) \<and>
     (s2 \<in> set (case_variants ''false'') \<longrightarrow>
        IdentityToken_validate L ((''email_verified'', PStr s2) # d) =
          Inr (t\<lparr>email_verified := Some (BoolVal False)\<rparr>) \<and>
        IdentityToken_validate L ((''is_private_email'', PStr s2) # d) =
          Inr (t\<lparr>is_private_email := Some (BoolVal False)\<rparr>)) \<and>
     (s3 \<notin> set (case_variants ''true'') \<longrightarrow>
        IdentityToken_validate L ((''email_verified'', PStr s3) # d) =
          Inr (t\<lparr>email_verified := Some (BoolVal False)\<rparr>) \<and>
        IdentityToken_validate L ((''is_private_email'', PStr s3) # d) =
          Inr (t\<lparr>is_private_email := Some (BoolVal False)\<rparr>)) \<and>
     IdentityToken_validate L ((''email_verified'', PBool b) # d) =
       Inr (t\<lparr>email_verified := Some (BoolVal b)\<rparr>) \<and>
     IdentityToken_validate L ((''is_private_email'', PBool b) # d) =
       Inr (t\<lparr>is_private_email := Some (BoolVal b)\<rparr>)"
proof -
  have str: "flag_validator (PStr s) = Inr (Some (BoolVal (s \<in> set (case_variants ''true''))))"
    for s
    by (simp add: flag_validator_PStr lower_true_iff)
  have other: "flag_validator (PStr s) = Inr (Some (BoolVal False))"
    if "s \<notin> set (case_variants ''true'')" for s
    using that by (simp add: str)
  have yes: "flag_validator (PStr s) = Inr (Some (BoolVal True))"
    if "s \<in> set (case_variants ''true'')" for s
    using that by (simp add: str)
  note ev = IdentityToken_set_email_verified [OF assms]
    and pe = IdentityToken_set_is_private_email [OF assms]
  show ?thesis
  proof (intro conjI impI)
    assume "s1 \<in> set (case_variants ''true'')"
    then show "IdentityToken_validate L ((''email_verified'', PStr s1) # d) =
          Inr (t\<lparr>email_verified := Some (BoolVal True)\<rparr>)"
      and "IdentityToken_validate L ((''is_private_email'', PStr s1) # d) =
          Inr (t\<lparr>is_private_email := Some (BoolVal True)\<rparr>)"
      by (rule ev [OF yes], rule pe [OF yes])
  next
    assume "s2 \<in> set (case_variants ''false'')"
    then have "s2 \<notin> set (case_variants ''true'')"
      by (rule case_variants_false_not_true)
    then show "IdentityToken_validate L ((''email_verified'', PStr s2) # d) =
          Inr (t\<lparr>email_verified := Some (BoolVal False)\<rparr>)"
      and "IdentityToken_validate L ((''is_private_email'', PStr s2) # d) =
          Inr (t\<lparr>is_private_email := Some (BoolVal False)\<rparr>)"
      by (rule ev [OF other], rule pe [OF other])
  next
    assume "s3 \<notin> set (case_variants ''true'')"
    then show "IdentityToken_validate L ((''email_verified'', PStr s3) # d) =
          Inr (t\<lparr>email_verified := Some (BoolVal False)\<rparr>)"
      and "IdentityToken_validate L ((''is_private_email'', PStr s3) # d) =
          Inr (t\<lparr>is_private_email := Some (BoolVal False)\<rparr>)"
      by (rule ev [OF other], rule pe [OF other])
  next
    show "IdentityToken_validate L ((''email_verified'', PBool b) # d) =
       Inr (t\<lparr>email_verified := Some (BoolVal b)\<rparr>)"
      by (rule ev [OF flag_validator_PBool])
    show "IdentityToken_validate L ((''is_private_email'', PBool b) # d) =
       Inr (t\<lparr>is_private_email := Some (BoolVal b)\<rparr>)"
      by (rule pe [OF flag_validator_PBool])
  qed
qed


theorem IdentityToken_flag_normalization_witness:
  "IdentityToken_validate no_conversions example_claims = Inr example_token \<and>
   ''TRUE'' \<in> set (case_variants ''true'') \<and>
   IdentityToken_validate no_conversions ((''email_verified'', PStr ''TRUE'') # example_claims) =
     Inr (example_token\<lparr>email_verified := Some (BoolVal True)\<rparr>) \<and>
   ''False'' \<in> set (case_variants ''false'') \<and>
   IdentityToken_validate no_conversions ((''is_private_email'', PStr ''False'') # example_claims) =
     Inr (example_token\<lparr>is_private_email := Some (BoolVal False)\<rparr>) \<and>
   ''yes'' \<notin> set (case_variants ''true'') \<and>
   IdentityToken_validate no_conversions ((''email_verified'', PStr ''yes'') # example_claims) =
     Inr (example_token\<lparr>email_verified := Some (BoolVal False)\<rparr>) \<and>
   IdentityToken_validate no_conversions ((''is_private_email'', PBool True) # example_claims) =
     Inr (example_token\<lparr>is_private_email := Some (BoolVal True)\<rparr>)"
proof -
  have v: "''TRUE'' \<in> set (case_variants ''true'')" "''False'' \<in> set (case_variants ''false'')"
    "''yes'' \<notin> set (case_variants ''true'')"
    unfolding lower_true_iff [symmetric] lower_false_iff [symmetric]
    by (simp_all add: lower_examples)
  from IdentityToken_flag_normalization
    [OF example_token_validated, of "''TRUE''" "''False''" "''yes''" True]
    v example_token_validated
  show ?thesis by (simp del: case_variants.simps)
qed

text \<open>
  The claim as stated fails: with \<^verbatim>\<open>email_verified="yes"\<close> the token is constructed,
  and its \<^verbatim>\<open>email_verified\<close> is \<^verbatim>\<open>False\<close>.
\<close>

theorem IdentityToken_other_string_accepted:
  "IdentityToken_validate no_conversions
     [(''iss'', PStr ''https://appleid.apple.com''), (''sub'', PStr ''u1''),
      (''aud'', PStr ''com.example.app''), (''iat'', PDatetime 1000000),
      (''exp'', PDatetime 2000000), (''email_verified'', PStr ''yes'')]
   = Inr \<lparr>iss = ''https://appleid.apple.com'', sub = ''u1'', aud = ''com.example.app'',
          iat = 1000000, exp = 2000000, nonce = None, nonce_supported = None,
          email = None, email_verified = Some (BoolVal False), is_private_email = None,
          real_user_status = None, transfer_sub = None\<rparr>"
  by (simp add: IdentityToken_validate_def required_def with_default_def
      flag_validator_PStr lower_examples)

subsection \<open>The configuration\<close>



lemma with_validated_default_Inr_iff:
  "with_validated_default a f d k = Inr x \<longleftrightarrow>
     (map_of d k = None \<and> f a = Inr x) \<or> (\<exists>v. map_of d k = Some v \<and> f v = Inr x)"
  by (auto simp: with_validated_default_def at_loc_Inr_iff split: option.splits)


















end
